theory Spec2Isabelle
  imports Main
begin

section \<open>The request maker of the Twitter API client (ClientRequestMaker)\<close>

text \<open>
  The class \<^verbatim>\<open>ClientRequestMaker\<close> builds an authenticated HTTP request from the
  parameters of one call and the credentials held by the client. The model follows the
  class member by member. What the class imports from other modules
  (\<^verbatim>\<open>RequestParamHelpers\<close>, \<^verbatim>\<open>OAuth1Helper\<close>, \<^verbatim>\<open>OAuth2Helper\<close>,
  \<^verbatim>\<open>trimUndefinedProperties\<close>, \<^verbatim>\<open>TweetStream\<close>) and the platform's \<^verbatim>\<open>URL\<close> class are
  not part of the class: they are fields of the record \<open>helpers\<close>, and the theorems
  hold for every such record.
\<close>

subsection \<open>JavaScript values\<close>

type_synonym headers = "string \<rightharpoonup> string"

text \<open>
  The header object is read and written by key: a map. A query or body object is a
  plain object whose values have type \<open>'v\<close>; it is kept as the list of its properties
  in their order, since the helpers that encode it enumerate them. A request body is a
  \<^verbatim>\<open>Buffer\<close> or such an object.
\<close>

type_synonym 'v properties = "(string \<times> 'v) list"

datatype 'v TRequestBody = Buffer "nat list" | BodyObject "'v properties"

text \<open>What \<^verbatim>\<open>constructBodyParams\<close> returns: a string or a \<^verbatim>\<open>Buffer\<close>.\<close>

datatype body_out = BodyString string | BodyBuffer "nat list"

datatype error = Error string | TypeError string

text \<open>
  A string field that may be \<^verbatim>\<open>undefined\<close> is a \<open>string option\<close>. JavaScript's
  conditions test truthiness: \<^verbatim>\<open>undefined\<close> and the empty string are falsy.
  \<open>truthyString\<close> returns the string when the condition holds.
\<close>

definition truthyString :: "string option \<Rightarrow> string option" where
  "truthyString x = (case x of None \<Rightarrow> None | Some s \<Rightarrow> if s = [] then None else Some s)"

text \<open>\<^verbatim>\<open>x || undefined\<close> on a string or \<^verbatim>\<open>Buffer\<close>: only the empty string is falsy.\<close>

definition orUndefined :: "body_out \<Rightarrow> body_out option" where
  "orUndefined r = (case r of BodyString s \<Rightarrow> if s = [] then None else Some r | BodyBuffer b \<Rightarrow> Some r)"

definition startsWith :: "string \<Rightarrow> string \<Rightarrow> bool" where
  "startsWith s p = (take (length p) s = p)"

text \<open>
  \<^verbatim>\<open>String.prototype.toUpperCase\<close>. The model's strings are ASCII: the letters a to z
  are mapped to A to Z and every other character is left as it is (JavaScript also maps
  letters outside ASCII). No theorem below depends on how a method is upper-cased.
\<close>

definition toUpperCase_char :: "char \<Rightarrow> char" where
  "toUpperCase_char c =
     (case map_of (zip ''abcdefghijklmnopqrstuvwxyz'' ''ABCDEFGHIJKLMNOPQRSTUVWXYZ'') c of
        Some u \<Rightarrow> u | None \<Rightarrow> c)"

definition toUpperCase :: "string \<Rightarrow> string" where
  "toUpperCase s = map toUpperCase_char s"

subsection \<open>The client's fields\<close>

text \<open>An OAuth1 key pair: \<^verbatim>\<open>{ key, secret }\<close>.\<close>

record keypair =
  key :: string
  secret :: string

text \<open>\<^verbatim>\<open>new OAuth1Helper({ consumerKeys })\<close>: the helper holds the consumer key pair.\<close>

datatype OAuth1Helper = OAuth1Helper (consumerKeys: keypair)

record 'ag IClientSettings =
  httpAgent :: "'ag option"
  disableCompression :: "bool option"

text \<open>
  The fields of \<^verbatim>\<open>ClientRequestMaker\<close> (the source's names without their leading
  underscore). \<open>'rl\<close> is the type of a rate-limit snapshot (\<^verbatim>\<open>TwitterRateLimit\<close>).
\<close>

record ('rl, 'ag) ClientRequestMaker =
  bearerToken :: "string option"
  consumerToken :: "string option"
  consumerSecret :: "string option"
  accessToken :: "string option"
  accessSecret :: "string option"
  basicToken :: "string option"
  clientId :: "string option"
  clientSecret :: "string option"
  oauth :: "OAuth1Helper option"
  rateLimits :: "string \<rightharpoonup> 'rl"
  clientSettings :: "'ag IClientSettings"

definition BODY_METHODS :: "string set" where
  "BODY_METHODS = {''POST'', ''PUT'', ''PATCH''}"

text \<open>\<^verbatim>\<open>saveRateLimit\<close>: \<^verbatim>\<open>this._rateLimits[originalUrl] = rateLimit\<close>.\<close>

definition saveRateLimit ::
  "('rl, 'ag) ClientRequestMaker \<Rightarrow> string \<Rightarrow> 'rl \<Rightarrow> ('rl, 'ag) ClientRequestMaker" where
  "saveRateLimit this originalUrl rateLimit =
     this\<lparr>rateLimits := (rateLimits this)(originalUrl \<mapsto> rateLimit)\<rparr>"

subsection \<open>Token helpers\<close>


definition getOAuthAccessTokens :: "('rl, 'ag) ClientRequestMaker \<Rightarrow> keypair option" where
  "getOAuthAccessTokens this =
     (case (truthyString (accessSecret this), truthyString (accessToken this)) of
        (Some s, Some k) \<Rightarrow> Some \<lparr>key = k, secret = s\<rparr>
      | _ \<Rightarrow> None)"

subsection \<open>The imported helpers\<close>

text \<open>
  The nonce and the timestamp that \<^verbatim>\<open>OAuth1Helper.authorize\<close> draws for one signature.
\<close>

record nonce_clock =
  nonce :: string
  timestamp :: nat

text \<open>
  The functions the class calls and does not define. \<open>'u\<close> is the platform's \<^verbatim>\<open>URL\<close>
  object, \<open>'v\<close> a value of a query or body object, \<open>'d\<close> the formatted query object
  (also the type of the data an OAuth1 signature covers) and \<open>'a\<close> the authorization
  that \<^verbatim>\<open>authorize\<close> returns. A helper that writes to an object it receives returns
  the object as written. \<open>parseURL\<close> is \<^verbatim>\<open>new URL(url)\<close>, \<open>None\<close> when it throws;
  \<open>constructBodyParams\<close> returns the header object as it left it together with its
  result or the error it threw. What a helper draws at random or reads from the clock is
  an argument of its model, so that two runs can differ in it: \<open>authorize\<close> receives
  the nonce and timestamp it draws, and \<open>constructBodyParams\<close> receives, as its first
  argument, the boundary it draws for a multipart body.
\<close>

record ('u, 'v, 'd, 'a) helpers =
  parseURL :: "string \<Rightarrow> 'u option"
  origin :: "'u \<Rightarrow> string"
  pathname :: "'u \<Rightarrow> string"
  toString :: "'u \<Rightarrow> string"
  applyRequestParametersToUrl :: "'u \<Rightarrow> (string \<rightharpoonup> string) \<Rightarrow> 'u"
  formatQueryToString :: "'v properties \<Rightarrow> 'd"
  moveUrlQueryParamsIntoObject :: "'u \<Rightarrow> 'd \<Rightarrow> 'u \<times> 'd"
  trimUndefinedProperties :: "'v properties \<Rightarrow> 'v properties"
  autoDetectBodyType :: "'u \<Rightarrow> string"
  mergeQueryAndBodyForOAuth :: "'d \<Rightarrow> 'v TRequestBody \<Rightarrow> 'd"
  constructBodyParams ::
    "string \<Rightarrow> 'v TRequestBody \<Rightarrow> headers \<Rightarrow> string \<Rightarrow> headers \<times> (error + body_out)"
  addQueryParamsToUrl :: "'u \<Rightarrow> 'd \<Rightarrow> 'u"
  getAuthHeader :: "string \<Rightarrow> string \<Rightarrow> string"
  authorize :: "OAuth1Helper \<Rightarrow> nonce_clock \<Rightarrow> string \<times> string \<times> 'd \<Rightarrow> keypair option \<Rightarrow> 'a"
  toHeader :: "OAuth1Helper \<Rightarrow> 'a \<Rightarrow> headers"
  setBodyLengthHeader :: "headers \<Rightarrow> body_out \<Rightarrow> headers"

subsection \<open>Request helpers\<close>

text \<open>
  \<^verbatim>\<open>writeAuthHeaders\<close> copies the header object and writes one authentication scheme
  into the copy: the first of bearer, basic, client id and secret, OAuth1 whose
  condition holds, or none. The request that \<^verbatim>\<open>authorize\<close> signs is the triple of
  \<^verbatim>\<open>url.toString()\<close>, \<^verbatim>\<open>method\<close> and \<^verbatim>\<open>data\<close>.
\<close>

definition writeAuthHeaders ::
  "('u, 'v, 'd, 'a) helpers \<Rightarrow> ('rl, 'ag) ClientRequestMaker \<Rightarrow> nonce_clock \<Rightarrow>
     headers \<Rightarrow> bool \<Rightarrow> 'u \<Rightarrow> string \<Rightarrow> 'd \<Rightarrow> 'v TRequestBody \<Rightarrow> headers" where
  "writeAuthHeaders H this nc headers bodyInSignature url method query body =
     (case truthyString (bearerToken this) of
        Some t \<Rightarrow> headers(''Authorization'' \<mapsto> ''Bearer '' @ t)
      | None \<Rightarrow>
     (case truthyString (basicToken this) of
        Some t \<Rightarrow> headers(''Authorization'' \<mapsto> ''Basic '' @ t)
      | None \<Rightarrow>
     (case (truthyString (clientId this), truthyString (clientSecret this)) of
        (Some i, Some s) \<Rightarrow> headers(''Authorization'' \<mapsto> ''Basic '' @ getAuthHeader H i s)
      | _ \<Rightarrow>
     (case (truthyString (consumerSecret this), oauth this) of
        (Some cs, Some signer) \<Rightarrow>
          (let data = (if bodyInSignature then mergeQueryAndBodyForOAuth H query body else query);
               auth = authorize H signer nc (toString H url, method, data) (getOAuthAccessTokens this)
           in headers ++ toHeader H signer auth)
      | _ \<Rightarrow> headers))))"

text \<open>
  The parameters of one call: the fields of \<^verbatim>\<open>IGetHttpRequestArgs\<close> and of the stream
  options that the class reads.
\<close>

record ('v, 'pe, 'dbg) IGetHttpRequestArgs =
  url :: string
  "method" :: string
  query :: "'v properties option"
  body :: "'v TRequestBody option"
  headers :: "headers option"
  forceBodyMode :: "string option"
  enableAuth :: "bool option"
  params :: "(string \<rightharpoonup> string) option"
  enableRateLimitSave :: "bool option"
  autoConnect :: "bool option"
  disableCompression :: "bool option"
  payloadIsError :: "'pe option"
  timeout :: "nat option"
  requestEventDebugHandler :: "'dbg option"

text \<open>The object \<^verbatim>\<open>getHttpRequestArgs\<close> returns.\<close>

record 'u request_args =
  rawUrl :: string
  url :: 'u
  "method" :: string
  headers :: headers
  body :: "body_out option"

text \<open>
  The steps of \<^verbatim>\<open>getHttpRequestArgs\<close>, in the order of the source.

  \<open>withUserAgent\<close>: \<^verbatim>\<open>headers = headers ?? {}\<close>, then the \<^verbatim>\<open>x-user-agent\<close> entry is
  written unless a truthy one is there.
\<close>

definition withUserAgent :: "headers option \<Rightarrow> headers" where
  "withUserAgent hs =
     (let headers = (case hs of None \<Rightarrow> Map.empty | Some h \<Rightarrow> h)
      in if truthyString (headers ''x-user-agent'') = None
         then headers(''x-user-agent'' \<mapsto> ''Node.twitter-api-v2'') else headers)"

text \<open>\<open>withProtocol\<close>: \<^verbatim>\<open>if (!url.startsWith('http')) url = 'https://' + url\<close>.\<close>

definition withProtocol :: "string \<Rightarrow> string" where
  "withProtocol s = (if \<not> startsWith s ''http'' then ''https://'' @ s else s)"

text \<open>
  \<open>urlAndQuery\<close>: the path parameters are applied to the parsed URL when \<^verbatim>\<open>params\<close> is
  given, the query (default \<^verbatim>\<open>{}\<close>) is formatted, and the URL's own query parameters
  are moved into it.
\<close>

definition urlAndQuery ::
  "('u, 'v, 'd, 'a) helpers \<Rightarrow> ('v, 'pe, 'dbg) IGetHttpRequestArgs \<Rightarrow> 'u \<Rightarrow> 'u \<times> 'd" where
  "urlAndQuery H rp urlObject =
     (let rawQuery = (case query rp of None \<Rightarrow> [] | Some q \<Rightarrow> q);
          urlObject = (case params rp of None \<Rightarrow> urlObject
                       | Some ps \<Rightarrow> applyRequestParametersToUrl H urlObject ps);
          query = formatQueryToString H rawQuery
      in moveUrlQueryParamsIntoObject H urlObject query)"

text \<open>
  \<open>trimmedBody\<close>: the body (default \<^verbatim>\<open>{}\<close>) after
  \<^verbatim>\<open>if (!(rawBody instanceof Buffer)) trimUndefinedProperties(rawBody)\<close>.
\<close>

definition trimmedBody ::
  "('u, 'v, 'd, 'a) helpers \<Rightarrow> ('v, 'pe, 'dbg) IGetHttpRequestArgs \<Rightarrow> 'v TRequestBody" where
  "trimmedBody H rp =
     (let rawBody = (case IGetHttpRequestArgs.body rp of None \<Rightarrow> BodyObject [] | Some b \<Rightarrow> b)
      in case rawBody of
           Buffer b \<Rightarrow> Buffer b
         | BodyObject ob \<Rightarrow> BodyObject (trimUndefinedProperties H ob))"

text \<open>\<open>resolveBodyType\<close>: \<^verbatim>\<open>forceBodyMode ?? autoDetectBodyType(urlObject)\<close>.\<close>

definition resolveBodyType ::
  "('u, 'v, 'd, 'a) helpers \<Rightarrow> ('v, 'pe, 'dbg) IGetHttpRequestArgs \<Rightarrow> 'u \<Rightarrow> string" where
  "resolveBodyType H rp urlObject =
     (case forceBodyMode rp of None \<Rightarrow> autoDetectBodyType H urlObject | Some m \<Rightarrow> m)"

text \<open>
  \<^verbatim>\<open>getHttpRequestArgs\<close> writes to the objects of its parameter: to the header object
  when the caller passed one, and through \<^verbatim>\<open>trimUndefinedProperties\<close> to the body
  object. The model returns the parameters as the call leaves them together with the
  result or the error thrown; \<open>nc\<close> and \<open>boundary\<close> are what the helpers draw during
  the call. Until \<^verbatim>\<open>writeAuthHeaders\<close> copies it, \<^verbatim>\<open>headers\<close> is
  the caller's object; with \<^verbatim>\<open>enableAuth: false\<close> it still is when
  \<^verbatim>\<open>constructBodyParams\<close> receives it.
\<close>

definition getHttpRequestArgs ::
  "('u, 'v, 'd, 'a) helpers \<Rightarrow> ('rl, 'ag) ClientRequestMaker \<Rightarrow> nonce_clock \<Rightarrow> string \<Rightarrow>
     ('v, 'pe, 'dbg) IGetHttpRequestArgs \<Rightarrow>
     ('v, 'pe, 'dbg) IGetHttpRequestArgs \<times> (error + 'u request_args)" where
  "getHttpRequestArgs H this nc boundary requestParams =
     (let method = toUpperCase (IGetHttpRequestArgs.method requestParams);
          headers = withUserAgent (IGetHttpRequestArgs.headers requestParams);
          rp = requestParams\<lparr>IGetHttpRequestArgs.headers :=
                 map_option (\<lambda>_. headers) (IGetHttpRequestArgs.headers requestParams)\<rparr>;
          url = withProtocol (IGetHttpRequestArgs.url requestParams)
      in case parseURL H url of
           None \<Rightarrow> (rp, Inl (TypeError ''Invalid URL''))
         | Some urlObject \<Rightarrow>
     (let rawUrl = origin H urlObject @ pathname H urlObject;
          (urlObject, query) = urlAndQuery H requestParams urlObject;
          rawBody = trimmedBody H requestParams;
          rp = rp\<lparr>IGetHttpRequestArgs.body :=
                 map_option (\<lambda>_. rawBody) (IGetHttpRequestArgs.body requestParams)\<rparr>;
          bodyType = resolveBodyType H requestParams urlObject;
          headers = (if enableAuth requestParams \<noteq> Some False
                     then (let bodyInSignature = (method \<in> BODY_METHODS \<and> bodyType = ''url'')
                           in writeAuthHeaders H this nc headers bodyInSignature urlObject method query rawBody)
                     else headers);
          (headers, body) = (if method \<in> BODY_METHODS
                             then (case constructBodyParams H boundary rawBody headers bodyType of
                                     (h, Inl e) \<Rightarrow> (h, Inl e)
                                   | (h, Inr r) \<Rightarrow> (h, Inr (orUndefined r)))
                             else (headers, Inr None));
          rp = (if enableAuth requestParams = Some False
                then rp\<lparr>IGetHttpRequestArgs.headers :=
                       map_option (\<lambda>_. headers) (IGetHttpRequestArgs.headers requestParams)\<rparr>
                else rp)
      in case body of
           Inl e \<Rightarrow> (rp, Inl e)
         | Inr b \<Rightarrow>
             (rp, Inr \<lparr>rawUrl = rawUrl, url = addQueryParamsToUrl H urlObject query,
                       method = method, headers = headers, body = b\<rparr>)))"

subsection \<open>One-shot requests\<close>

text \<open>
  The transport options (\<^verbatim>\<open>Partial<ClientRequestArgs>\<close>: method, headers, timeout and
  agent).
\<close>

record 'ag request_options =
  "method" :: string
  headers :: headers
  timeout :: "nat option"
  agent :: "'ag option"

text \<open>
  The request handed to \<^verbatim>\<open>RequestHandlerHelper\<close>. \<open>rateLimitSaver\<close> is
  \<^verbatim>\<open>this.saveRateLimit.bind(this, args.rawUrl)\<close> or \<^verbatim>\<open>undefined\<close>: the model keeps the
  key the saver is bound to.
\<close>

record ('u, 'ag, 'dbg) TRequestFullData =
  url :: 'u
  options :: "'ag request_options"
  body :: "body_out option"
  rateLimitSaver :: "string option"
  requestEventDebugHandler :: "'dbg option"
  compression :: bool


subsection \<open>Streams\<close>

text \<open>The request data handed to \<^verbatim>\<open>TweetStream\<close>.\<close>

record ('u, 'ag, 'pe) TRequestFullStreamData =
  url :: 'u
  options :: "'ag request_options"
  body :: "body_out option"
  rateLimitSaver :: "string option"
  payloadIsError :: "'pe option"
  compression :: bool

text \<open>\<^verbatim>\<open>new TweetStream(requestData)\<close>: a stream that is not connected.\<close>

datatype ('u, 'ag, 'pe) TweetStream =
  TweetStream (requestData: "('u, 'ag, 'pe) TRequestFullStreamData")

text \<open>
  What \<^verbatim>\<open>sendStream\<close> returns: the stream itself, or what \<^verbatim>\<open>stream.connect()\<close>
  returned (a promise of the connected stream).
\<close>

datatype ('s, 'p) stream_return = Unconnected 's | Connecting 'p

text \<open>
  \<^verbatim>\<open>sendStream\<close>; \<open>connect\<close> is the method \<^verbatim>\<open>TweetStream.connect\<close>, which the class
  calls and does not define. The options carry no timeout.
\<close>

definition sendStream ::
  "('u, 'v, 'd, 'a) helpers \<Rightarrow> (('u, 'ag, 'pe) TweetStream \<Rightarrow> 'p) \<Rightarrow>
     ('rl, 'ag) ClientRequestMaker \<Rightarrow> nonce_clock \<Rightarrow> string \<Rightarrow>
     ('v, 'pe, 'dbg) IGetHttpRequestArgs \<Rightarrow>
     error + (('u, 'ag, 'pe) TweetStream, 'p) stream_return" where
  "sendStream H connect this nc boundary requestParams =
     (case snd (getHttpRequestArgs H this nc boundary requestParams) of
        Inl e \<Rightarrow> Inl e
      | Inr args \<Rightarrow>
     (let options = \<lparr>method = request_args.method args, headers = request_args.headers args,
                      timeout = None, agent = httpAgent (clientSettings this)\<rparr>;
          enableRateLimitSave = (enableRateLimitSave requestParams \<noteq> Some False);
          enableAutoConnect = (autoConnect requestParams \<noteq> Some False);
          options = (case request_args.body args of
                       None \<Rightarrow> options
                     | Some b \<Rightarrow> options\<lparr>headers := setBodyLengthHeader H (headers options) b\<rparr>);
          isCompressionDisabled =
            (IGetHttpRequestArgs.disableCompression requestParams = Some True
             \<or> IClientSettings.disableCompression (clientSettings this) = Some True);
          requestData = \<lparr>url = request_args.url args, options = options,
                          body = request_args.body args,
                          rateLimitSaver = (if enableRateLimitSave then Some (rawUrl args) else None),
                          payloadIsError = IGetHttpRequestArgs.payloadIsError requestParams,
                          compression = \<not> isCompressionDisabled\<rparr>;
          stream = TweetStream requestData
      in if \<not> enableAutoConnect then Inr (Unconnected stream)
         else Inr (Connecting (connect stream))))"

subsection \<open>An instance of the helpers\<close>

text \<open>
  The examples below run the class on a small instance of its helpers: URLs of the form
  \<^verbatim>\<open>https://host/path\<close>, string values (\<open>None\<close> is \<^verbatim>\<open>undefined\<close>), no percent
  encoding, and an OAuth1 "signature" that is the signed base string itself. The
  instance follows what the specification says of each helper. The general theorems
  hold for every instance; the examples and counterexamples are evaluated on this one.
\<close>

record URL =
  url_origin :: string
  url_pathname :: string
  url_search :: "string properties"

definition exampleURL :: "string \<Rightarrow> URL option" where
  "exampleURL s =
     (if startsWith s ''https://''
      then (let rest = drop 8 s;
                host = takeWhile (\<lambda>c. c \<noteq> CHR ''/'') rest;
                path = dropWhile (\<lambda>c. c \<noteq> CHR ''/'') rest
            in if host = [] then None
               else Some \<lparr>url_origin = ''https://'' @ host,
                          url_pathname = (if path = [] then ''/'' else path),
                          url_search = []\<rparr>)
      else None)"

fun splitPath :: "string \<Rightarrow> string list" where
  "splitPath [] = [[]]"
| "splitPath (c # cs) =
     (if c = CHR ''/'' then [] # splitPath cs
      else (case splitPath cs of [] \<Rightarrow> [[c]] | seg # segs \<Rightarrow> (c # seg) # segs))"

fun joinPath :: "string list \<Rightarrow> string" where
  "joinPath [] = []"
| "joinPath [seg] = seg"
| "joinPath (seg # segs) = seg @ ''/'' @ joinPath segs"

text \<open>A path segment \<^verbatim>\<open>:name\<close> is replaced by the value of \<^verbatim>\<open>name\<close>, when given.\<close>

definition exampleApplyParameters :: "URL \<Rightarrow> (string \<rightharpoonup> string) \<Rightarrow> URL" where
  "exampleApplyParameters u ps =
     u\<lparr>url_pathname := joinPath (map (\<lambda>seg. case seg of [] \<Rightarrow> seg
            | c # name \<Rightarrow> if c = CHR '':'' then (case ps name of None \<Rightarrow> seg | Some v \<Rightarrow> v) else seg)
          (splitPath (url_pathname u)))\<rparr>"

text \<open>The properties with a defined value.\<close>

definition definedProperties :: "string option properties \<Rightarrow> string properties" where
  "definedProperties ob = concat (map (\<lambda>(k, v). case v of None \<Rightarrow> [] | Some s \<Rightarrow> [(k, s)]) ob)"

text \<open>The union of two objects; the keys of the second win.\<close>

definition assign :: "string properties \<Rightarrow> string properties \<Rightarrow> string properties" where
  "assign a b = filter (\<lambda>(k, v). map_of b k = None) a @ b"

fun formEncode :: "string properties \<Rightarrow> string" where
  "formEncode [] = []"
| "formEncode [(k, v)] = k @ ''='' @ v"
| "formEncode ((k, v) # kvs) = k @ ''='' @ v @ ''&'' @ formEncode kvs"

text \<open>
  Modelled from the spec: the "multipart form boundary encoding" of a body, which is not
  among the sources. Every part and the end of the body are delimited by the boundary
  drawn for the body.
\<close>

fun multipartEncode :: "string \<Rightarrow> string properties \<Rightarrow> string" where
  "multipartEncode boundary [] = ''--'' @ boundary @ ''--''"
| "multipartEncode boundary ((k, v) # kvs) =
     ''--'' @ boundary @ '' name='' @ k @ '' '' @ v @ '' '' @ multipartEncode boundary kvs"

text \<open>
  Modelled from the spec: \<open>constructBodyParams\<close>, which is not among the sources. The
  specification gives its encodings (url-encoded pairs, JSON text, multipart, raw bytes
  passed through) and says that it sets the content type; the content type of a
  multipart body names the boundary.
\<close>

definition exampleConstructBodyParams ::
  "string \<Rightarrow> string option TRequestBody \<Rightarrow> headers \<Rightarrow> string \<Rightarrow> headers \<times> (error + body_out)" where
  "exampleConstructBodyParams boundary b h mode =
     (case b of
        Buffer bytes \<Rightarrow> (h, Inr (BodyBuffer bytes))
      | BodyObject ob \<Rightarrow>
          if mode = ''url''
          then (h(''content-type'' \<mapsto> ''application/x-www-form-urlencoded;charset=UTF-8''),
                Inr (BodyString (formEncode (definedProperties ob))))
          else if mode = ''json''
          then (h(''content-type'' \<mapsto> ''application/json;charset=UTF-8''),
                Inr (BodyString (''{'' @ formEncode (definedProperties ob) @ ''}'')))
          else if mode = ''form-data''
          then (h(''content-type'' \<mapsto> ''multipart/form-data; boundary='' @ boundary),
                Inr (BodyString (multipartEncode boundary (definedProperties ob))))
          else (h, Inl (Error ''You can only use raw body mode with Buffers'')))"

definition exampleAuthorize ::
  "OAuth1Helper \<Rightarrow> nonce_clock \<Rightarrow> string \<times> string \<times> string properties \<Rightarrow> keypair option \<Rightarrow> string" where
  "exampleAuthorize signer nc request tokens =
     (case request of (u, m, data) \<Rightarrow>
        ''OAuth oauth_consumer_key='' @ key (consumerKeys signer)
        @ '', oauth_nonce='' @ nonce nc
        @ (case tokens of None \<Rightarrow> [] | Some t \<Rightarrow> '', oauth_token='' @ key t)
        @ '', oauth_signature='' @ m @ '' '' @ u @ '' '' @ formEncode data)"

definition exampleHelpers :: "(URL, string option, string properties, string) helpers" where
  "exampleHelpers =
     \<lparr>parseURL = exampleURL,
      origin = url_origin,
      pathname = url_pathname,
      toString = (\<lambda>u. url_origin u @ url_pathname u
                        @ (if url_search u = [] then [] else ''?'' @ formEncode (url_search u))),
      applyRequestParametersToUrl = exampleApplyParameters,
      formatQueryToString = definedProperties,
      moveUrlQueryParamsIntoObject = (\<lambda>u q. (u\<lparr>url_search := []\<rparr>, assign q (url_search u))),
      trimUndefinedProperties = filter (\<lambda>(k, v). v \<noteq> None),
      autoDetectBodyType = (\<lambda>u. if startsWith (url_pathname u) ''/2/'' then ''json'' else ''url''),
      mergeQueryAndBodyForOAuth =
        (\<lambda>q b. case b of Buffer bytes \<Rightarrow> q | BodyObject ob \<Rightarrow> assign q (definedProperties ob)),
      constructBodyParams = exampleConstructBodyParams,
      addQueryParamsToUrl = (\<lambda>u q. u\<lparr>url_search := url_search u @ q\<rparr>),
      getAuthHeader = (\<lambda>i s. i @ '':'' @ s),
      authorize = exampleAuthorize,
      toHeader = (\<lambda>signer auth. [''Authorization'' \<mapsto> auth]),
      setBodyLengthHeader = (\<lambda>h b. h(''content-length'' \<mapsto>
                                (case b of BodyString s \<Rightarrow> replicate (length s) CHR ''1''
                                 | BodyBuffer bytes \<Rightarrow> replicate (length bytes) CHR ''1'')))\<rparr>"

text \<open>A client that holds no credentials and has saved no rate limit.\<close>

definition emptyClient :: "(nat \<times> nat \<times> nat, unit) ClientRequestMaker" where
  "emptyClient =
     \<lparr>bearerToken = None, consumerToken = None, consumerSecret = None, accessToken = None,
      accessSecret = None, basicToken = None, clientId = None, clientSecret = None,
      oauth = None, rateLimits = Map.empty,
      clientSettings = \<lparr>httpAgent = None, disableCompression = None\<rparr>\<rparr>"

text \<open>A client that holds OAuth1 consumer and access tokens and the signer built from them.\<close>

definition oauth1Client :: "(nat \<times> nat \<times> nat, unit) ClientRequestMaker" where
  "oauth1Client =
     emptyClient\<lparr>consumerToken := Some ''ck'', consumerSecret := Some ''cs'',
                 accessToken := Some ''at'', accessSecret := Some ''as'',
                 oauth := Some (OAuth1Helper \<lparr>key = ''ck'', secret = ''cs''\<rparr>)\<rparr>"

text \<open>The parameters of a call that gives only a method and a URL.\<close>

definition request :: "string \<Rightarrow> string \<Rightarrow> (string option, unit, unit) IGetHttpRequestArgs" where
  "request m u =
     \<lparr>IGetHttpRequestArgs.url = u, IGetHttpRequestArgs.method = m, query = None,
      IGetHttpRequestArgs.body = None, IGetHttpRequestArgs.headers = None,
      forceBodyMode = None, enableAuth = None, params = None, enableRateLimitSave = None,
      autoConnect = None, IGetHttpRequestArgs.disableCompression = None,
      IGetHttpRequestArgs.payloadIsError = None, IGetHttpRequestArgs.timeout = None,
      IGetHttpRequestArgs.requestEventDebugHandler = None\<rparr>"

text \<open>
  A \<^verbatim>\<open>POST\<close> to a version 1.1 endpoint with a query, a body property and a body
  property that is \<^verbatim>\<open>undefined\<close>.
\<close>

definition postRequest :: "(string option, unit, unit) IGetHttpRequestArgs" where
  "postRequest = (request ''post'' ''api.twitter.com/1.1/statuses/update.json'')
      \<lparr>IGetHttpRequestArgs.body := Some (BodyObject [(''a'', Some ''1''), (''b'', None)]),
       query := Some [(''q'', Some ''5'')]\<rparr>"

definition nonce1 :: nonce_clock where
  "nonce1 = \<lparr>nonce = ''n1'', timestamp = 1700000000\<rparr>"

definition nonce2 :: nonce_clock where
  "nonce2 = \<lparr>nonce = ''n2'', timestamp = 1700000060\<rparr>"

text \<open>A client that holds every kind of credential at once.\<close>

definition allCredentialsClient :: "(nat \<times> nat \<times> nat, unit) ClientRequestMaker" where
  "allCredentialsClient =
     oauth1Client\<lparr>bearerToken := Some ''tok'', basicToken := Some ''dXNlcg=='',
                  clientId := Some ''id'', clientSecret := Some ''sec''\<rparr>"

text \<open>
  A \<^verbatim>\<open>GET\<close> of a templated version 2 endpoint, with a path parameter and a body.
\<close>

definition getRequest :: "string \<Rightarrow> (string option, unit, unit) IGetHttpRequestArgs" where
  "getRequest userId = (request ''get'' ''https://api.twitter.com/2/users/:id/tweets'')
      \<lparr>IGetHttpRequestArgs.body := Some (BodyObject [(''a'', Some ''1'')]),
       params := Some [''id'' \<mapsto> userId]\<rparr>"

text \<open>Two boundaries, as drawn by two runs.\<close>

definition boundary1 :: string where
  "boundary1 = ''------------------------3f2a''"

definition boundary2 :: string where
  "boundary2 = ''------------------------9c41''"

text \<open>A multipart \<^verbatim>\<open>POST\<close> to the upload endpoint.\<close>

definition uploadRequest :: "(string option, unit, unit) IGetHttpRequestArgs" where
  "uploadRequest = (request ''POST'' ''https://upload.twitter.com/1.1/media/upload.json'')
      \<lparr>IGetHttpRequestArgs.body := Some (BodyObject [(''command'', Some ''INIT'')]),
       forceBodyMode := Some ''form-data''\<rparr>"

text \<open>
  A \<^verbatim>\<open>GET\<close> whose caller passes a header object, a query and a body object with a
  property that is \<^verbatim>\<open>undefined\<close>.
\<close>

definition showRequest :: "(string option, unit, unit) IGetHttpRequestArgs" where
  "showRequest = (request ''GET'' ''api.twitter.com/1.1/statuses/show.json'')
      \<lparr>query := Some [(''id'', Some ''20'')],
       IGetHttpRequestArgs.body := Some (BodyObject [(''a'', Some ''1''), (''b'', None)]),
       IGetHttpRequestArgs.headers := Some [''accept'' \<mapsto> ''*/*'']\<rparr>"

section \<open>The rate-limit store\<close>

text \<open>
  C7. The rate-limit store is overwritten per key: after \<open>saveRateLimit\<close> with snapshot
  \<open>S1\<close> and then with \<open>S2\<close> under the same key, the store holds exactly \<open>S2\<close> under
  that key, as if \<open>S1\<close> had never been saved; a save changes the entry of no other key.
\<close>

theorem saveRateLimit_last_write_wins:
  "rateLimits (saveRateLimit (saveRateLimit this k S1) k S2) k = Some S2
   \<and> saveRateLimit (saveRateLimit this k S1) k S2 = saveRateLimit this k S2
   \<and> (\<forall>k'. k' \<noteq> k \<longrightarrow> rateLimits (saveRateLimit this k S) k' = rateLimits this k')"
  by (simp add: saveRateLimit_def)

theorem saveRateLimit_last_write_wins_witness:
  "rateLimits (saveRateLimit (saveRateLimit (saveRateLimit emptyClient ''https://api.twitter.com/2/tweets'' (1, 2, 3))
       ''https://api.twitter.com/2/users'' (15, 15, 100)) ''https://api.twitter.com/2/users'' (14, 15, 100))
     ''https://api.twitter.com/2/users'' = Some (14, 15, 100)
   \<and> ''https://api.twitter.com/2/tweets'' \<noteq> ''https://api.twitter.com/2/users''
   \<and> rateLimits (saveRateLimit (saveRateLimit emptyClient ''https://api.twitter.com/2/tweets'' (1, 2, 3))
       ''https://api.twitter.com/2/users'' (15, 15, 100)) ''https://api.twitter.com/2/tweets'' = Some (1, 2, 3)"
  using saveRateLimit_last_write_wins
    [of "saveRateLimit emptyClient ''https://api.twitter.com/2/tweets'' (1, 2, 3)"
        "''https://api.twitter.com/2/users''" "(15, 15, 100)" "(14, 15, 100)" "(15, 15, 100)"]
  by (simp add: saveRateLimit_def emptyClient_def)

section \<open>Request construction\<close>

subsection \<open>Shared lemmas\<close>

text \<open>The definitions a concrete call is evaluated with.\<close>

lemmas model_defs = getHttpRequestArgs_def withProtocol_def withUserAgent_def urlAndQuery_def
  trimmedBody_def resolveBodyType_def writeAuthHeaders_def truthyString_def startsWith_def
  toUpperCase_def toUpperCase_char_def BODY_METHODS_def orUndefined_def getOAuthAccessTokens_def
  Let_def

lemmas example_defs = exampleHelpers_def exampleURL_def exampleApplyParameters_def
  definedProperties_def assign_def exampleConstructBodyParams_def exampleAuthorize_def
  emptyClient_def oauth1Client_def request_def nonce1_def nonce2_def

text \<open>
  In the instance of the helpers, merging gives every key of the second object the
  value it has there: on a collision the body's value wins over the query's.
\<close>

lemma assign_second_wins:
  "map_of (assign a b) k = (case map_of b k of Some v \<Rightarrow> Some v | None \<Rightarrow> map_of a k)"
proof -
  have kept: "map_of (filter (\<lambda>(k, v). map_of b k = None) a) k = map_of a k" if "map_of b k = None"
    using that by (induction a) auto
  have dropped: "map_of (filter (\<lambda>(k, v). map_of b k = None) a) k = None" if "map_of b k \<noteq> None"
    using that by (induction a) auto
  show ?thesis
  proof (cases "map_of b k")
    case None
    then show ?thesis by (simp add: assign_def map_add_def kept split: option.splits)
  next
    case (Some v)
    then show ?thesis by (simp add: assign_def map_add_def dropped)
  qed
qed

text \<open>
  The result of \<open>getHttpRequestArgs\<close>, step by step: the error of \<^verbatim>\<open>new URL\<close>, or the
  object built from the parsed URL.
\<close>

lemma getHttpRequestArgs_invalid:
  "parseURL H (withProtocol (IGetHttpRequestArgs.url rp)) = None \<Longrightarrow>
   snd (getHttpRequestArgs H this nc bd rp) = Inl (TypeError ''Invalid URL'')"
  by (simp add: getHttpRequestArgs_def Let_def)

lemma getHttpRequestArgs_result:
  assumes "parseURL H (withProtocol (IGetHttpRequestArgs.url rp)) = Some u0"
    and "urlAndQuery H rp u0 = (u, q)"
  shows "snd (getHttpRequestArgs H this nc bd rp) =
     (let M = toUpperCase (IGetHttpRequestArgs.method rp);
          bt = resolveBodyType H rp u;
          b = trimmedBody H rp;
          h = (if enableAuth rp \<noteq> Some False
               then writeAuthHeaders H this nc (withUserAgent (IGetHttpRequestArgs.headers rp))
                      (M \<in> BODY_METHODS \<and> bt = ''url'') u M q b
               else withUserAgent (IGetHttpRequestArgs.headers rp))
      in if M \<in> BODY_METHODS
         then (case constructBodyParams H bd b h bt of
                 (h', Inl e) \<Rightarrow> Inl e
               | (h', Inr r) \<Rightarrow>
                   Inr \<lparr>rawUrl = origin H u0 @ pathname H u0, url = addQueryParamsToUrl H u q,
                        method = M, headers = h', body = orUndefined r\<rparr>)
         else Inr \<lparr>rawUrl = origin H u0 @ pathname H u0, url = addQueryParamsToUrl H u q,
                   method = M, headers = h, body = None\<rparr>)"
  using assms
  by (simp add: getHttpRequestArgs_def Let_def split: prod.splits sum.splits)

lemma writeAuthHeaders_oauth1:
  assumes "truthyString (bearerToken this) = None"
    and "truthyString (basicToken this) = None"
    and "truthyString (clientId this) = None \<or> truthyString (clientSecret this) = None"
    and "truthyString (consumerSecret this) = Some cs"
    and "oauth this = Some signer"
  shows "writeAuthHeaders H this nc hs bis u m q b =
     hs ++ toHeader H signer (authorize H signer nc
       (toString H u, m, if bis then mergeQueryAndBodyForOAuth H q b else q)
       (getOAuthAccessTokens this))"
  using assms by (auto simp add: writeAuthHeaders_def Let_def split: option.splits)

text \<open>
  The chain of \<open>writeAuthHeaders\<close>: the first scheme whose condition holds is the one
  written, and no other.
\<close>

lemma writeAuthHeaders_priority:
  "writeAuthHeaders H this nc hs bis u m q b =
     (if truthyString (bearerToken this) \<noteq> None
      then hs(''Authorization'' \<mapsto> ''Bearer '' @ the (truthyString (bearerToken this)))
      else if truthyString (basicToken this) \<noteq> None
      then hs(''Authorization'' \<mapsto> ''Basic '' @ the (truthyString (basicToken this)))
      else if truthyString (clientId this) \<noteq> None \<and> truthyString (clientSecret this) \<noteq> None
      then hs(''Authorization'' \<mapsto> ''Basic '' @ getAuthHeader H (the (truthyString (clientId this)))
                                                   (the (truthyString (clientSecret this))))
      else if truthyString (consumerSecret this) \<noteq> None \<and> oauth this \<noteq> None
      then hs ++ toHeader H (the (oauth this)) (authorize H (the (oauth this)) nc
             (toString H u, m, if bis then mergeQueryAndBodyForOAuth H q b else q)
             (getOAuthAccessTokens this))
      else hs)"
  by (auto simp add: writeAuthHeaders_def Let_def split: option.splits)

text \<open>
  When the method carries a body, the body of the result is what \<open>constructBodyParams\<close>
  returned for the trimmed body and the resolved body type, with the empty string
  replaced by \<^verbatim>\<open>undefined\<close>.
\<close>

lemma getHttpRequestArgs_body:
  assumes "parseURL H (withProtocol (IGetHttpRequestArgs.url rp)) = Some u0"
    and "urlAndQuery H rp u0 = (u, q)"
    and "snd (getHttpRequestArgs H this nc bd rp) = Inr d"
    and "toUpperCase (IGetHttpRequestArgs.method rp) \<in> BODY_METHODS"
  shows "\<exists>h h' r. constructBodyParams H bd (trimmedBody H rp) h (resolveBodyType H rp u) = (h', Inr r)
           \<and> request_args.body d = orUndefined r"
proof -
  let ?M = "toUpperCase (IGetHttpRequestArgs.method rp)"
  let ?h = "if enableAuth rp \<noteq> Some False
            then writeAuthHeaders H this nc (withUserAgent (IGetHttpRequestArgs.headers rp))
                   (?M \<in> BODY_METHODS \<and> resolveBodyType H rp u = ''url'') u ?M q (trimmedBody H rp)
            else withUserAgent (IGetHttpRequestArgs.headers rp)"
  obtain h' x where c: "constructBodyParams H bd (trimmedBody H rp) ?h (resolveBodyType H rp u) = (h', x)"
    by (cases "constructBodyParams H bd (trimmedBody H rp) ?h (resolveBodyType H rp u)")
  have "snd (getHttpRequestArgs H this nc bd rp) =
          (case x of Inl e \<Rightarrow> Inl e
           | Inr r \<Rightarrow> Inr \<lparr>rawUrl = origin H u0 @ pathname H u0, url = addQueryParamsToUrl H u q,
                          method = ?M, headers = h', body = orUndefined r\<rparr>)"
    unfolding getHttpRequestArgs_result [OF assms(1,2)] Let_def
    using assms(4) c by (simp only: if_True prod.case)
  with assms(3) obtain r where "x = Inr r" "request_args.body d = orUndefined r"
    by (cases x) auto
  with c show ?thesis by blast
qed

text \<open>
  The parameters as \<open>getHttpRequestArgs\<close> leaves them: the header object and the body
  object are the only ones written.
\<close>

lemma getHttpRequestArgs_params_invalid:
  assumes "parseURL H (withProtocol (IGetHttpRequestArgs.url rp)) = None"
  shows "fst (getHttpRequestArgs H this nc bd rp) =
     rp\<lparr>IGetHttpRequestArgs.headers :=
          map_option (\<lambda>_. withUserAgent (IGetHttpRequestArgs.headers rp)) (IGetHttpRequestArgs.headers rp)\<rparr>"
  using assms by (simp add: getHttpRequestArgs_def Let_def)

lemma getHttpRequestArgs_params:
  assumes "parseURL H (withProtocol (IGetHttpRequestArgs.url rp)) = Some u0"
    and "urlAndQuery H rp u0 = (u, q)"
  shows "fst (getHttpRequestArgs H this nc bd rp) =
     rp\<lparr>IGetHttpRequestArgs.headers :=
          map_option (\<lambda>_. if enableAuth rp = Some False
                               \<and> toUpperCase (IGetHttpRequestArgs.method rp) \<in> BODY_METHODS
                            then fst (constructBodyParams H bd (trimmedBody H rp)
                                   (withUserAgent (IGetHttpRequestArgs.headers rp))
                                   (resolveBodyType H rp u))
                            else withUserAgent (IGetHttpRequestArgs.headers rp))
            (IGetHttpRequestArgs.headers rp),
        IGetHttpRequestArgs.body :=
          map_option (\<lambda>_. trimmedBody H rp) (IGetHttpRequestArgs.body rp)\<rparr>"
  using assms
  by (simp add: getHttpRequestArgs_def Let_def split: prod.splits sum.splits)

subsection \<open>The data of an OAuth1 signature\<close>

text \<open>
  C1. Let the client hold no (truthy) bearer token, no basic token and no pair of client
  id and client secret, and let it hold a consumer secret and an OAuth1 signer. For a
  request built with auth enabled, \<open>authorize\<close> is called on the triple of the URL's
  string, the upper-cased method and the signature data, where the data is
  \<open>mergeQueryAndBodyForOAuth query body\<close> if the upper-cased method is in
  \<open>BODY_METHODS\<close> and the resolved body type is \<open>url\<close>, and the query alone in every
  other case. The header it yields is merged into the headers: they are the headers of
  the result when the method carries no body, and the headers that
  \<open>constructBodyParams\<close> receives when it does.
\<close>

theorem oauth1_signature_data:
  assumes noBearer: "truthyString (bearerToken this) = None"
    and noBasic: "truthyString (basicToken this) = None"
    and noClient: "truthyString (clientId this) = None \<or> truthyString (clientSecret this) = None"
    and secret: "truthyString (consumerSecret this) = Some cs"
    and signer: "oauth this = Some signer"
    and auth: "enableAuth rp \<noteq> Some False"
    and parsed: "parseURL H (withProtocol (IGetHttpRequestArgs.url rp)) = Some u0"
    and moved: "urlAndQuery H rp u0 = (u, q)"
    and M: "M = toUpperCase (IGetHttpRequestArgs.method rp)"
    and data: "data = (if M \<in> BODY_METHODS \<and> resolveBodyType H rp u = ''url''
                       then mergeQueryAndBodyForOAuth H q (trimmedBody H rp) else q)"
    and signed: "signed = withUserAgent (IGetHttpRequestArgs.headers rp)
                   ++ toHeader H signer (authorize H signer nc (toString H u, M, data)
                        (getOAuthAccessTokens this))"
  shows "(M \<notin> BODY_METHODS \<longrightarrow>
            snd (getHttpRequestArgs H this nc bd rp) =
              Inr \<lparr>rawUrl = origin H u0 @ pathname H u0, url = addQueryParamsToUrl H u q,
                   method = M, headers = signed, body = None\<rparr>)
       \<and> (M \<in> BODY_METHODS \<longrightarrow>
            snd (getHttpRequestArgs H this nc bd rp) =
              (case constructBodyParams H bd (trimmedBody H rp) signed (resolveBodyType H rp u) of
                 (h', Inl e) \<Rightarrow> Inl e
               | (h', Inr r) \<Rightarrow>
                   Inr \<lparr>rawUrl = origin H u0 @ pathname H u0, url = addQueryParamsToUrl H u q,
                        method = M, headers = h', body = orUndefined r\<rparr>))"
proof -
  let ?bis = "M \<in> BODY_METHODS \<and> resolveBodyType H rp u = ''url''"
  have w: "writeAuthHeaders H this nc (withUserAgent (IGetHttpRequestArgs.headers rp)) ?bis u M q
             (trimmedBody H rp) = signed"
    unfolding signed data
    by (simp add: writeAuthHeaders_oauth1 [OF noBearer noBasic noClient secret signer])
  note r = getHttpRequestArgs_result [OF parsed moved, of this nc bd, folded M]
  show ?thesis
  proof (cases "M \<in> BODY_METHODS")
    case True
    then show ?thesis using r auth w by (simp add: Let_def)
  next
    case False
    then show ?thesis using r auth w by (simp add: Let_def)
  qed
qed

theorem oauth1_signature_data_witness:
  "truthyString (bearerToken oauth1Client) = None
   \<and> truthyString (basicToken oauth1Client) = None
   \<and> truthyString (clientId oauth1Client) = None
   \<and> truthyString (consumerSecret oauth1Client) = Some ''cs''
   \<and> oauth oauth1Client = Some (OAuth1Helper \<lparr>key = ''ck'', secret = ''cs''\<rparr>)
   \<and> enableAuth postRequest \<noteq> Some False
   \<and> toUpperCase (IGetHttpRequestArgs.method postRequest) \<in> BODY_METHODS
   \<and> snd (getHttpRequestArgs exampleHelpers oauth1Client nonce1 boundary1 postRequest) =
       Inr \<lparr>rawUrl = ''https://api.twitter.com/1.1/statuses/update.json'',
            url = \<lparr>url_origin = ''https://api.twitter.com'',
                    url_pathname = ''/1.1/statuses/update.json'',
                    url_search = [(''q'', ''5'')]\<rparr>,
            method = ''POST'',
            headers = [''x-user-agent'' \<mapsto> ''Node.twitter-api-v2'',
              ''Authorization'' \<mapsto> ''OAuth oauth_consumer_key=ck, oauth_nonce=n1, oauth_token=at, oauth_signature=POST https://api.twitter.com/1.1/statuses/update.json q=5&a=1'',
              ''content-type'' \<mapsto> ''application/x-www-form-urlencoded;charset=UTF-8''],
            body = Some (BodyString ''a=1'')\<rparr>"
proof -
  let ?u0 = "\<lparr>url_origin = ''https://api.twitter.com'',
              url_pathname = ''/1.1/statuses/update.json'', url_search = []\<rparr>"
  have h1: "truthyString (bearerToken oauth1Client) = None"
    and h2: "truthyString (basicToken oauth1Client) = None"
    and h3: "truthyString (clientId oauth1Client) = None \<or> truthyString (clientSecret oauth1Client) = None"
    and h4: "truthyString (consumerSecret oauth1Client) = Some ''cs''"
    and h5: "oauth oauth1Client = Some (OAuth1Helper \<lparr>key = ''ck'', secret = ''cs''\<rparr>)"
    and h6: "enableAuth postRequest \<noteq> Some False"
    by (simp_all add: oauth1Client_def emptyClient_def truthyString_def postRequest_def request_def)
  have h7: "parseURL exampleHelpers (withProtocol (IGetHttpRequestArgs.url postRequest)) = Some ?u0"
    by (simp add: model_defs example_defs postRequest_def)
  have h8: "urlAndQuery exampleHelpers postRequest ?u0 = (?u0, [(''q'', ''5'')])"
    by (simp add: model_defs example_defs postRequest_def)
  have m: "toUpperCase (IGetHttpRequestArgs.method postRequest) = ''POST''"
    by (simp add: model_defs example_defs postRequest_def)
  note t = oauth1_signature_data [OF h1 h2 h3 h4 h5 h6 h7 h8 refl refl refl, of nonce1 boundary1]
  show ?thesis
    using h1 h2 h4 h5 h6 t
    by (simp add: m) (simp add: model_defs example_defs postRequest_def)
qed

subsection \<open>The bearer token\<close>

text \<open>
  C2. When the client holds a bearer token (a non-empty string, which is what the test
  \<^verbatim>\<open>if (this._bearerToken)\<close> accepts), \<open>writeAuthHeaders\<close> sets \<open>Authorization\<close> to
  \<open>Bearer\<close>, a space and the token, whatever basic, client or OAuth1 credentials the
  client also holds. For a request built with auth enabled this is the
  \<open>Authorization\<close> entry of the result; when the method carries a body the headers
  pass through \<open>constructBodyParams\<close> first, which is assumed to leave that entry alone.
\<close>

theorem bearer_token_wins:
  assumes bearer: "truthyString (bearerToken this) = Some t"
  shows "writeAuthHeaders H this nc hs bis u m q b = hs(''Authorization'' \<mapsto> ''Bearer '' @ t)
     \<and> (enableAuth rp \<noteq> Some False \<longrightarrow>
          snd (getHttpRequestArgs H this nc bd rp) = Inr d \<longrightarrow>
          (toUpperCase (IGetHttpRequestArgs.method rp) \<in> BODY_METHODS \<longrightarrow>
             (\<forall>b' h bt. fst (constructBodyParams H bd b' h bt) ''Authorization'' = h ''Authorization'')) \<longrightarrow>
          request_args.headers d ''Authorization'' = Some (''Bearer '' @ t))"
proof (intro conjI impI)
  show w: "\<And>hs bis u m q b. writeAuthHeaders H this nc hs bis u m q b = hs(''Authorization'' \<mapsto> ''Bearer '' @ t)"
    using bearer by (simp add: writeAuthHeaders_def)
  assume auth: "enableAuth rp \<noteq> Some False"
    and res: "snd (getHttpRequestArgs H this nc bd rp) = Inr d"
    and keep: "toUpperCase (IGetHttpRequestArgs.method rp) \<in> BODY_METHODS \<longrightarrow>
             (\<forall>b' h bt. fst (constructBodyParams H bd b' h bt) ''Authorization'' = h ''Authorization'')"
  obtain u0 where parsed: "parseURL H (withProtocol (IGetHttpRequestArgs.url rp)) = Some u0"
    using res getHttpRequestArgs_invalid [of H rp this nc bd] by (cases "parseURL H (withProtocol (IGetHttpRequestArgs.url rp))") auto
  obtain u' q' where moved: "urlAndQuery H rp u0 = (u', q')"
    by (cases "urlAndQuery H rp u0")
  note r = getHttpRequestArgs_result [OF parsed moved, of this nc bd]
  show "request_args.headers d ''Authorization'' = Some (''Bearer '' @ t)"
  proof (cases "toUpperCase (IGetHttpRequestArgs.method rp) \<in> BODY_METHODS")
    case False
    then show ?thesis using r res auth by (auto simp add: Let_def w)
  next
    case True
    let ?c = "constructBodyParams H bd (trimmedBody H rp)
                ((withUserAgent (IGetHttpRequestArgs.headers rp))(''Authorization'' \<mapsto> ''Bearer '' @ t))
                (resolveBodyType H rp u')"
    from True keep have "fst ?c ''Authorization'' = Some (''Bearer '' @ t)" by simp
    moreover from True r res auth have "request_args.headers d = fst ?c"
      by (auto simp add: Let_def w split: prod.splits sum.splits)
    ultimately show ?thesis by simp
  qed
qed

theorem bearer_token_wins_witness:
  "truthyString (bearerToken allCredentialsClient) = Some ''tok''
   \<and> truthyString (basicToken allCredentialsClient) = Some ''dXNlcg==''
   \<and> oauth allCredentialsClient \<noteq> None
   \<and> enableAuth postRequest \<noteq> Some False
   \<and> toUpperCase (IGetHttpRequestArgs.method postRequest) \<in> BODY_METHODS
   \<and> (\<forall>b h bt. fst (constructBodyParams exampleHelpers boundary1 b h bt) ''Authorization'' = h ''Authorization'')
   \<and> map_sum id (\<lambda>d. request_args.headers d ''Authorization'')
         (snd (getHttpRequestArgs exampleHelpers allCredentialsClient nonce1 boundary1 postRequest))
       = Inr (Some ''Bearer tok'')"
proof -
  have b: "truthyString (bearerToken allCredentialsClient) = Some ''tok''"
    by (simp add: allCredentialsClient_def truthyString_def)
  have others: "truthyString (basicToken allCredentialsClient) = Some ''dXNlcg==''"
    "oauth allCredentialsClient \<noteq> None" "enableAuth postRequest \<noteq> Some False"
    "toUpperCase (IGetHttpRequestArgs.method postRequest) \<in> BODY_METHODS"
    by (simp_all add: allCredentialsClient_def oauth1Client_def truthyString_def postRequest_def
        request_def toUpperCase_def toUpperCase_char_def BODY_METHODS_def)
  have keep: "\<forall>b h bt. fst (constructBodyParams exampleHelpers boundary1 b h bt) ''Authorization'' = h ''Authorization''"
    by (simp add: exampleHelpers_def exampleConstructBodyParams_def split: TRequestBody.splits)
  obtain d where res: "snd (getHttpRequestArgs exampleHelpers allCredentialsClient nonce1 boundary1 postRequest) = Inr d"
    by (simp add: model_defs example_defs postRequest_def allCredentialsClient_def)
  from bearer_token_wins [OF b, THEN conjunct2, rule_format, OF others(3) res] keep
  have "request_args.headers d ''Authorization'' = Some ''Bearer tok''"
    by simp
  with b others keep res show ?thesis by simp
qed

subsection \<open>The protocol of the URL\<close>

text \<open>
  C3. The source adds the protocol "if needed" and tests \<^verbatim>\<open>url.startsWith('http')\<close>.
  \<^verbatim>\<open>httpbin.org/get\<close> carries no scheme, so the protocol is needed; but the host name
  starts with \<^verbatim>\<open>http\<close>, the test takes it for a URL with a scheme and prepends nothing.
  \<^verbatim>\<open>new URL\<close> then throws, although the URL with \<^verbatim>\<open>https://\<close> prepended parses.
\<close>

theorem protocol_not_added:
  "\<not> startsWith ''httpbin.org/get'' ''http://''
   \<and> \<not> startsWith ''httpbin.org/get'' ''https://''
   \<and> startsWith ''httpbin.org/get'' ''http''
   \<and> withProtocol ''httpbin.org/get'' = ''httpbin.org/get''
   \<and> snd (getHttpRequestArgs exampleHelpers emptyClient nonce1 boundary1
          (request ''GET'' ''httpbin.org/get'')) = Inl (TypeError ''Invalid URL'')
   \<and> map_sum id rawUrl (snd (getHttpRequestArgs exampleHelpers emptyClient nonce1 boundary1
          (request ''GET'' ''https://httpbin.org/get''))) = Inr ''https://httpbin.org/get''"
  by (simp add: model_defs example_defs)

subsection \<open>Methods without a body\<close>

text \<open>
  C4. When the upper-cased method is not \<^verbatim>\<open>POST\<close>, \<^verbatim>\<open>PUT\<close> or \<^verbatim>\<open>PATCH\<close> (as for
  \<^verbatim>\<open>GET\<close>), the body of the result is \<^verbatim>\<open>undefined\<close>, whatever body the parameters
  give; and there is a result whenever the URL parses.
\<close>

theorem no_body_without_body_method:
  assumes "toUpperCase (IGetHttpRequestArgs.method rp) \<notin> BODY_METHODS"
  shows "(\<forall>d. snd (getHttpRequestArgs H this nc bd rp) = Inr d \<longrightarrow> request_args.body d = None)
     \<and> (parseURL H (withProtocol (IGetHttpRequestArgs.url rp)) \<noteq> None \<longrightarrow>
          (\<exists>d. snd (getHttpRequestArgs H this nc bd rp) = Inr d))"
proof (cases "parseURL H (withProtocol (IGetHttpRequestArgs.url rp))")
  case None
  then show ?thesis using getHttpRequestArgs_invalid [of H rp this nc bd] by simp
next
  case (Some u0)
  obtain u' q' where moved: "urlAndQuery H rp u0 = (u', q')"
    by (cases "urlAndQuery H rp u0")
  show ?thesis
    using getHttpRequestArgs_result [OF Some moved, of this nc bd] assms Some
    by (auto simp add: Let_def)
qed

theorem no_body_without_body_method_witness:
  "toUpperCase (IGetHttpRequestArgs.method (getRequest ''12'')) = ''GET''
   \<and> ''GET'' \<notin> BODY_METHODS
   \<and> IGetHttpRequestArgs.body (getRequest ''12'') = Some (BodyObject [(''a'', Some ''1'')])
   \<and> map_sum id request_args.body
         (snd (getHttpRequestArgs exampleHelpers emptyClient nonce1 boundary1 (getRequest ''12''))) = Inr None"
proof -
  have m: "toUpperCase (IGetHttpRequestArgs.method (getRequest ''12'')) = ''GET''"
    by (simp add: model_defs getRequest_def request_def)
  have nb: "''GET'' \<notin> BODY_METHODS" by (simp add: BODY_METHODS_def)
  have b: "IGetHttpRequestArgs.body (getRequest ''12'') = Some (BodyObject [(''a'', Some ''1'')])"
    by (simp add: getRequest_def request_def)
  have p: "parseURL exampleHelpers (withProtocol (IGetHttpRequestArgs.url (getRequest ''12''))) \<noteq> None"
    by (simp add: model_defs example_defs getRequest_def)
  from nb m have "toUpperCase (IGetHttpRequestArgs.method (getRequest ''12'')) \<notin> BODY_METHODS"
    by simp
  note t = no_body_without_body_method [OF this, of exampleHelpers emptyClient nonce1 boundary1]
  from t p obtain d where
    res: "snd (getHttpRequestArgs exampleHelpers emptyClient nonce1 boundary1 (getRequest ''12'')) = Inr d"
    by blast
  with t have "request_args.body d = None" by blast
  with m nb b res show ?thesis by simp
qed

subsection \<open>Two runs on the same parameters\<close>

text \<open>
  C5 fails as stated. With the nonce and the timestamp held constant, two runs on the
  same multipart \<^verbatim>\<open>POST\<close> return the same \<open>rawUrl\<close> and method and two different
  bodies: each run draws its own boundary, and the body and the content type carry it.
\<close>

theorem multipart_body_counterexample:
  "map_sum id (\<lambda>d. (rawUrl d, request_args.method d, request_args.body d))
      (snd (getHttpRequestArgs exampleHelpers oauth1Client nonce1 boundary1 uploadRequest))
     = Inr (''https://upload.twitter.com/1.1/media/upload.json'', ''POST'',
            Some (BodyString ''--------------------------3f2a name=command INIT --------------------------3f2a--''))
   \<and> map_sum id (\<lambda>d. (rawUrl d, request_args.method d, request_args.body d))
      (snd (getHttpRequestArgs exampleHelpers oauth1Client nonce1 boundary2 uploadRequest))
     = Inr (''https://upload.twitter.com/1.1/media/upload.json'', ''POST'',
            Some (BodyString ''--------------------------9c41 name=command INIT --------------------------9c41--''))
   \<and> map_sum id request_args.body
      (snd (getHttpRequestArgs exampleHelpers oauth1Client nonce1 boundary1 uploadRequest))
     \<noteq> map_sum id request_args.body
      (snd (getHttpRequestArgs exampleHelpers oauth1Client nonce1 boundary2 uploadRequest))"
  by (simp add: model_defs example_defs uploadRequest_def boundary1_def boundary2_def)

text \<open>
  C5 (amended). Two runs of \<open>getHttpRequestArgs\<close> on the same parameters and the same
  client return the same \<open>rawUrl\<close>, method and URL object, whatever nonce, timestamp
  and boundary each run draws. They return the same body when the method carries no
  body; when, for the body and the body type of the call, the body that
  \<open>constructBodyParams\<close> returns depends neither on the boundary nor on the headers;
  and, with the nonce and the timestamp held constant, when it does not depend on the
  boundary.
\<close>

theorem descriptor_deterministic:
  assumes r1: "snd (getHttpRequestArgs H this nc1 bd1 rp) = Inr d1"
    and r2: "snd (getHttpRequestArgs H this nc2 bd2 rp) = Inr d2"
    and parsed: "parseURL H (withProtocol (IGetHttpRequestArgs.url rp)) = Some u0"
    and moved: "urlAndQuery H rp u0 = (u, q)"
  shows "rawUrl d1 = rawUrl d2
     \<and> request_args.method d1 = request_args.method d2
     \<and> request_args.url d1 = request_args.url d2
     \<and> (toUpperCase (IGetHttpRequestArgs.method rp) \<notin> BODY_METHODS \<longrightarrow>
          request_args.body d1 = request_args.body d2)
     \<and> ((\<forall>h h'. snd (constructBodyParams H bd1 (trimmedBody H rp) h (resolveBodyType H rp u))
                 = snd (constructBodyParams H bd2 (trimmedBody H rp) h' (resolveBodyType H rp u))) \<longrightarrow>
          request_args.body d1 = request_args.body d2)
     \<and> (nc1 = nc2 \<longrightarrow>
          (\<forall>h. snd (constructBodyParams H bd1 (trimmedBody H rp) h (resolveBodyType H rp u))
               = snd (constructBodyParams H bd2 (trimmedBody H rp) h (resolveBodyType H rp u))) \<longrightarrow>
          request_args.body d1 = request_args.body d2)"
proof -
  let ?M = "toUpperCase (IGetHttpRequestArgs.method rp)"
  let ?b = "trimmedBody H rp" and ?bt = "resolveBodyType H rp u"
  let ?h = "\<lambda>nc. if enableAuth rp \<noteq> Some False
            then writeAuthHeaders H this nc (withUserAgent (IGetHttpRequestArgs.headers rp))
                   (?M \<in> BODY_METHODS \<and> ?bt = ''url'') u ?M q ?b
            else withUserAgent (IGetHttpRequestArgs.headers rp)"
  note e1 = getHttpRequestArgs_result [OF parsed moved, of this nc1 bd1]
  note e2 = getHttpRequestArgs_result [OF parsed moved, of this nc2 bd2]
  have fixed: "rawUrl d1 = rawUrl d2 \<and> request_args.method d1 = request_args.method d2
     \<and> request_args.url d1 = request_args.url d2"
    using e1 e2 r1 r2 by (auto simp add: Let_def split: if_splits prod.splits sum.splits)
  have nobody: "?M \<notin> BODY_METHODS \<longrightarrow> request_args.body d1 = request_args.body d2"
    using e1 e2 r1 r2 by (auto simp add: Let_def split: if_splits prod.splits sum.splits)
  have run: "\<exists>h' r. constructBodyParams H bd ?b (?h nc) ?bt = (h', Inr r)
                 \<and> request_args.body d = orUndefined r"
    if res: "snd (getHttpRequestArgs H this nc bd rp) = Inr d" and body: "?M \<in> BODY_METHODS"
    for nc bd d
  proof -
    obtain h' x where c: "constructBodyParams H bd ?b (?h nc) ?bt = (h', x)"
      by (cases "constructBodyParams H bd ?b (?h nc) ?bt")
    have "snd (getHttpRequestArgs H this nc bd rp) =
            (case x of Inl e \<Rightarrow> Inl e
             | Inr r \<Rightarrow> Inr \<lparr>rawUrl = origin H u0 @ pathname H u0, url = addQueryParamsToUrl H u q,
                            method = ?M, headers = h', body = orUndefined r\<rparr>)"
      unfolding getHttpRequestArgs_result [OF parsed moved] Let_def
      using body c by (simp only: if_True prod.case)
    with res obtain r where "x = Inr r" "request_args.body d = orUndefined r"
      by (cases x) auto
    with c show ?thesis by blast
  qed
  have both: "request_args.body d1 = request_args.body d2"
    if eq: "snd (constructBodyParams H bd1 ?b (?h nc1) ?bt) = snd (constructBodyParams H bd2 ?b (?h nc2) ?bt)"
  proof (cases "?M \<in> BODY_METHODS")
    case False
    then show ?thesis using nobody by simp
  next
    case True
    from run [OF r1 True] obtain h1 x1 where
      x1: "constructBodyParams H bd1 ?b (?h nc1) ?bt = (h1, Inr x1)" "request_args.body d1 = orUndefined x1"
      by blast
    from run [OF r2 True] obtain h2 x2 where
      x2: "constructBodyParams H bd2 ?b (?h nc2) ?bt = (h2, Inr x2)" "request_args.body d2 = orUndefined x2"
      by blast
    from eq x1 x2 show ?thesis by simp
  qed
  have anyNonce: "(\<forall>h h'. snd (constructBodyParams H bd1 ?b h ?bt)
                 = snd (constructBodyParams H bd2 ?b h' ?bt)) \<longrightarrow>
          request_args.body d1 = request_args.body d2"
    using both by blast
  have sameNonce: "nc1 = nc2 \<longrightarrow>
          (\<forall>h. snd (constructBodyParams H bd1 ?b h ?bt) = snd (constructBodyParams H bd2 ?b h ?bt)) \<longrightarrow>
          request_args.body d1 = request_args.body d2"
    using both by blast
  from fixed nobody anyNonce sameNonce show ?thesis by blast
qed

theorem descriptor_deterministic_witness:
  "nonce1 \<noteq> nonce2 \<and> boundary1 \<noteq> boundary2
   \<and> (\<forall>h h'. snd (constructBodyParams exampleHelpers boundary1 (BodyObject [(''a'', Some ''1'')]) h ''url'')
             = snd (constructBodyParams exampleHelpers boundary2 (BodyObject [(''a'', Some ''1'')]) h' ''url''))
   \<and> map_sum id (\<lambda>d. (rawUrl d, request_args.method d, request_args.body d))
        (snd (getHttpRequestArgs exampleHelpers oauth1Client nonce1 boundary1 postRequest))
     = Inr (''https://api.twitter.com/1.1/statuses/update.json'', ''POST'', Some (BodyString ''a=1''))
   \<and> map_sum id (\<lambda>d. (rawUrl d, request_args.method d, request_args.body d))
        (snd (getHttpRequestArgs exampleHelpers oauth1Client nonce2 boundary2 postRequest))
     = Inr (''https://api.twitter.com/1.1/statuses/update.json'', ''POST'', Some (BodyString ''a=1''))
   \<and> map_sum id (\<lambda>d. request_args.headers d ''Authorization'')
        (snd (getHttpRequestArgs exampleHelpers oauth1Client nonce1 boundary1 postRequest))
     \<noteq> map_sum id (\<lambda>d. request_args.headers d ''Authorization'')
        (snd (getHttpRequestArgs exampleHelpers oauth1Client nonce2 boundary2 postRequest))"
proof -
  let ?u0 = "\<lparr>url_origin = ''https://api.twitter.com'',
              url_pathname = ''/1.1/statuses/update.json'', url_search = []\<rparr>"
  have n: "nonce1 \<noteq> nonce2" "boundary1 \<noteq> boundary2"
    by (simp_all add: nonce1_def nonce2_def boundary1_def boundary2_def)
  have parsed: "parseURL exampleHelpers (withProtocol (IGetHttpRequestArgs.url postRequest)) = Some ?u0"
    by (simp add: model_defs example_defs postRequest_def)
  have moved: "urlAndQuery exampleHelpers postRequest ?u0 = (?u0, [(''q'', ''5'')])"
    by (simp add: model_defs example_defs postRequest_def)
  have tb: "trimmedBody exampleHelpers postRequest = BodyObject [(''a'', Some ''1'')]"
    "resolveBodyType exampleHelpers postRequest ?u0 = ''url''"
    by (simp_all add: model_defs example_defs postRequest_def)
  have ign: "\<forall>h h'. snd (constructBodyParams exampleHelpers boundary1 (BodyObject [(''a'', Some ''1'')]) h ''url'')
             = snd (constructBodyParams exampleHelpers boundary2 (BodyObject [(''a'', Some ''1'')]) h' ''url'')"
    by (simp add: exampleHelpers_def exampleConstructBodyParams_def)
  obtain d1 where r1: "snd (getHttpRequestArgs exampleHelpers oauth1Client nonce1 boundary1 postRequest) = Inr d1"
    and v1: "rawUrl d1 = ''https://api.twitter.com/1.1/statuses/update.json''"
      "request_args.method d1 = ''POST''" "request_args.body d1 = Some (BodyString ''a=1'')"
      "request_args.headers d1 ''Authorization'' = Some ''OAuth oauth_consumer_key=ck, oauth_nonce=n1, oauth_token=at, oauth_signature=POST https://api.twitter.com/1.1/statuses/update.json q=5&a=1''"
    by (simp add: model_defs example_defs postRequest_def)
  obtain d2 where r2: "snd (getHttpRequestArgs exampleHelpers oauth1Client nonce2 boundary2 postRequest) = Inr d2"
    and v2: "request_args.headers d2 ''Authorization'' = Some ''OAuth oauth_consumer_key=ck, oauth_nonce=n2, oauth_token=at, oauth_signature=POST https://api.twitter.com/1.1/statuses/update.json q=5&a=1''"
    by (simp add: model_defs example_defs postRequest_def)
  from descriptor_deterministic [OF r1 r2 parsed moved] ign
  have "rawUrl d1 = rawUrl d2" "request_args.method d1 = request_args.method d2"
    "request_args.body d1 = request_args.body d2"
    unfolding tb by blast+
  with n ign r1 r2 v1 v2 show ?thesis by simp
qed

subsection \<open>Missing consumer tokens\<close>



subsection \<open>Streams and auto-connect\<close>

text \<open>
  C8. When \<open>getHttpRequestArgs\<close> returns, \<open>sendStream\<close> builds a stream from the
  result (URL, options, body, rate-limit saver). Unless \<open>autoConnect\<close> is \<^verbatim>\<open>false\<close> it
  calls \<open>connect\<close> on the stream and returns what \<open>connect\<close> returns, the promise of
  the connected stream. When \<open>autoConnect\<close> is \<^verbatim>\<open>false\<close> it returns the stream itself
  and \<open>connect\<close> is not called: the result is the same for every \<open>connect\<close>.
\<close>

theorem sendStream_autoConnect:
  assumes res: "snd (getHttpRequestArgs H this nc bd rp) = Inr args"
  shows "\<exists>stream.
       TRequestFullStreamData.url (requestData stream) = request_args.url args
     \<and> TRequestFullStreamData.body (requestData stream) = request_args.body args
     \<and> request_options.method (options (requestData stream)) = request_args.method args
     \<and> request_options.headers (options (requestData stream))
           = (case request_args.body args of None \<Rightarrow> request_args.headers args
              | Some b \<Rightarrow> setBodyLengthHeader H (request_args.headers args) b)
     \<and> rateLimitSaver (requestData stream)
           = (if enableRateLimitSave rp \<noteq> Some False then Some (rawUrl args) else None)
     \<and> (autoConnect rp \<noteq> Some False \<longrightarrow>
           sendStream H connect this nc bd rp = Inr (Connecting (connect stream)))
     \<and> (autoConnect rp = Some False \<longrightarrow>
           sendStream H connect this nc bd rp = Inr (Unconnected stream)
           \<and> (\<forall>connect'. sendStream H connect' this nc bd rp = sendStream H connect this nc bd rp))"
proof -
  let ?options0 = "\<lparr>request_options.method = request_args.method args,
                    headers = request_args.headers args, timeout = None,
                    agent = httpAgent (clientSettings this)\<rparr>"
  let ?options = "case request_args.body args of None \<Rightarrow> ?options0
                  | Some b \<Rightarrow> ?options0\<lparr>request_options.headers :=
                                setBodyLengthHeader H (request_options.headers ?options0) b\<rparr>"
  let ?stream = "TweetStream
       \<lparr>TRequestFullStreamData.url = request_args.url args, options = ?options,
        body = request_args.body args,
        rateLimitSaver = (if enableRateLimitSave rp \<noteq> Some False then Some (rawUrl args) else None),
        payloadIsError = IGetHttpRequestArgs.payloadIsError rp,
        compression = (\<not> (IGetHttpRequestArgs.disableCompression rp = Some True
                          \<or> IClientSettings.disableCompression (clientSettings this) = Some True))\<rparr>"
  have s: "sendStream H c this nc bd rp =
             (if autoConnect rp \<noteq> Some False then Inr (Connecting (c ?stream))
              else Inr (Unconnected ?stream))" for c
    using res by (simp add: sendStream_def Let_def)
  show ?thesis
    by (rule exI [of _ ?stream]) (simp add: s split: option.splits)
qed

theorem sendStream_autoConnect_witness:
  "autoConnect (getRequest ''12'') \<noteq> Some False
   \<and> (case sendStream exampleHelpers (\<lambda>s. (''connected'', s)) emptyClient nonce1 boundary1 (getRequest ''12'') of
         Inr (Connecting p) \<Rightarrow> Some (fst p, rateLimitSaver (requestData (snd p))) | _ \<Rightarrow> None)
       = Some (''connected'', Some ''https://api.twitter.com/2/users/:id/tweets'')
   \<and> autoConnect ((getRequest ''12'')\<lparr>autoConnect := Some False\<rparr>) = Some False
   \<and> (case sendStream exampleHelpers (\<lambda>s. (''connected'', s)) emptyClient nonce1 boundary1
              ((getRequest ''12'')\<lparr>autoConnect := Some False\<rparr>) of
         Inr (Unconnected s) \<Rightarrow> Some (rateLimitSaver (requestData s)) | _ \<Rightarrow> None)
       = Some (Some ''https://api.twitter.com/2/users/:id/tweets'')"
proof -
  let ?rp2 = "(getRequest ''12'')\<lparr>autoConnect := Some False\<rparr>"
  let ?c = "\<lambda>s :: (URL, unit, unit) TweetStream. (''connected'', s)"
  have a: "autoConnect (getRequest ''12'') \<noteq> Some False" "autoConnect ?rp2 = Some False"
    "enableRateLimitSave (getRequest ''12'') \<noteq> Some False" "enableRateLimitSave ?rp2 \<noteq> Some False"
    by (simp_all add: getRequest_def request_def)
  obtain d1 where r1: "snd (getHttpRequestArgs exampleHelpers emptyClient nonce1 boundary1 (getRequest ''12'')) = Inr d1"
    and v1: "rawUrl d1 = ''https://api.twitter.com/2/users/:id/tweets''"
    by (simp add: model_defs example_defs getRequest_def)
  obtain d2 where r2: "snd (getHttpRequestArgs exampleHelpers emptyClient nonce1 boundary1 ?rp2) = Inr d2"
    and v2: "rawUrl d2 = ''https://api.twitter.com/2/users/:id/tweets''"
    by (simp add: model_defs example_defs getRequest_def)
  from sendStream_autoConnect [OF r1, of ?c] a obtain s1 where
    "sendStream exampleHelpers ?c emptyClient nonce1 boundary1 (getRequest ''12'') = Inr (Connecting (?c s1))"
    "rateLimitSaver (requestData s1) = Some (rawUrl d1)"
    by auto
  moreover from sendStream_autoConnect [OF r2, of ?c] a obtain s2 where
    "sendStream exampleHelpers ?c emptyClient nonce1 boundary1 ?rp2 = Inr (Unconnected s2)"
    "rateLimitSaver (requestData s2) = Some (rawUrl d2)"
    by auto
  ultimately show ?thesis using a v1 v2 by simp
qed

subsection \<open>What the call writes to its parameters\<close>

text \<open>
  C9 fails as stated: \<open>getHttpRequestArgs\<close> writes to the objects it is given. The header object of the
  caller has no \<^verbatim>\<open>x-user-agent\<close> entry before the call and has one after it; the body
  object of the caller has lost its \<^verbatim>\<open>undefined\<close> property.
\<close>

theorem parameters_written_counterexample:
  "map_option (\<lambda>h. h ''x-user-agent'') (IGetHttpRequestArgs.headers showRequest) = Some None
   \<and> map_option (\<lambda>h. h ''x-user-agent'')
        (IGetHttpRequestArgs.headers (fst (getHttpRequestArgs exampleHelpers emptyClient nonce1 boundary1 showRequest)))
       = Some (Some ''Node.twitter-api-v2'')
   \<and> IGetHttpRequestArgs.body showRequest = Some (BodyObject [(''a'', Some ''1''), (''b'', None)])
   \<and> IGetHttpRequestArgs.body (fst (getHttpRequestArgs exampleHelpers emptyClient nonce1 boundary1 showRequest))
       = Some (BodyObject [(''a'', Some ''1'')])"
  by (simp add: model_defs example_defs showRequest_def)

text \<open>
  C9 (amended). \<open>getHttpRequestArgs\<close> leaves the query object of the caller and every
  parameter other than the header object and the body object as they were. When the
  caller passes a header object, the call writes the \<^verbatim>\<open>x-user-agent\<close> entry into it
  unless a truthy one is there, and changes no other entry itself; with
  \<^verbatim>\<open>enableAuth: false\<close> and a method that carries a body the object is then handed to
  \<open>constructBodyParams\<close>, and is left as that helper leaves it. A body object that is
  not a \<^verbatim>\<open>Buffer\<close> is handed to \<open>trimUndefinedProperties\<close> once the URL has parsed,
  and is left as that helper leaves it; a \<^verbatim>\<open>Buffer\<close> is not written.
\<close>

theorem parameters_after_call:
  assumes after: "rp' = fst (getHttpRequestArgs H this nc bd rp)"
  shows "query rp' = query rp
     \<and> rp'\<lparr>IGetHttpRequestArgs.headers := IGetHttpRequestArgs.headers rp,
            IGetHttpRequestArgs.body := IGetHttpRequestArgs.body rp\<rparr> = rp
     \<and> (IGetHttpRequestArgs.headers rp = None \<longrightarrow> IGetHttpRequestArgs.headers rp' = None)
     \<and> (\<forall>h. IGetHttpRequestArgs.headers rp = Some h \<longrightarrow>
           (enableAuth rp \<noteq> Some False \<or> toUpperCase (IGetHttpRequestArgs.method rp) \<notin> BODY_METHODS
            \<or> parseURL H (withProtocol (IGetHttpRequestArgs.url rp)) = None) \<longrightarrow>
           IGetHttpRequestArgs.headers rp' =
             Some (if truthyString (h ''x-user-agent'') = None
                   then h(''x-user-agent'' \<mapsto> ''Node.twitter-api-v2'') else h))
     \<and> (\<forall>h u0. IGetHttpRequestArgs.headers rp = Some h \<longrightarrow>
           enableAuth rp = Some False \<longrightarrow> toUpperCase (IGetHttpRequestArgs.method rp) \<in> BODY_METHODS \<longrightarrow>
           parseURL H (withProtocol (IGetHttpRequestArgs.url rp)) = Some u0 \<longrightarrow>
           IGetHttpRequestArgs.headers rp' =
             Some (fst (constructBodyParams H bd (trimmedBody H rp) (withUserAgent (Some h))
                          (resolveBodyType H rp (fst (urlAndQuery H rp u0))))))
     \<and> (IGetHttpRequestArgs.body rp = None \<longrightarrow> IGetHttpRequestArgs.body rp' = None)
     \<and> (\<forall>bytes. IGetHttpRequestArgs.body rp = Some (Buffer bytes) \<longrightarrow>
           IGetHttpRequestArgs.body rp' = Some (Buffer bytes))
     \<and> (\<forall>ob. IGetHttpRequestArgs.body rp = Some (BodyObject ob) \<longrightarrow>
           IGetHttpRequestArgs.body rp' =
             Some (BodyObject (if parseURL H (withProtocol (IGetHttpRequestArgs.url rp)) = None
                               then ob else trimUndefinedProperties H ob)))"
proof (cases "parseURL H (withProtocol (IGetHttpRequestArgs.url rp))")
  case None
  note e = getHttpRequestArgs_params_invalid [OF None, of this nc bd]
  show ?thesis
    unfolding after e
    by (simp add: None withUserAgent_def Let_def)
next
  case (Some u0)
  obtain u q where moved: "urlAndQuery H rp u0 = (u, q)"
    by (cases "urlAndQuery H rp u0")
  note e = getHttpRequestArgs_params [OF Some moved, of this nc bd]
  have hs: "\<forall>h. IGetHttpRequestArgs.headers rp = Some h \<longrightarrow>
           (enableAuth rp \<noteq> Some False \<or> toUpperCase (IGetHttpRequestArgs.method rp) \<notin> BODY_METHODS
            \<or> parseURL H (withProtocol (IGetHttpRequestArgs.url rp)) = None) \<longrightarrow>
           IGetHttpRequestArgs.headers rp' =
             Some (if truthyString (h ''x-user-agent'') = None
                   then h(''x-user-agent'' \<mapsto> ''Node.twitter-api-v2'') else h)"
    unfolding after e by (auto simp add: Some withUserAgent_def Let_def)
  have hc: "\<forall>h u0. IGetHttpRequestArgs.headers rp = Some h \<longrightarrow>
           enableAuth rp = Some False \<longrightarrow> toUpperCase (IGetHttpRequestArgs.method rp) \<in> BODY_METHODS \<longrightarrow>
           parseURL H (withProtocol (IGetHttpRequestArgs.url rp)) = Some u0 \<longrightarrow>
           IGetHttpRequestArgs.headers rp' =
             Some (fst (constructBodyParams H bd (trimmedBody H rp) (withUserAgent (Some h))
                          (resolveBodyType H rp (fst (urlAndQuery H rp u0)))))"
    unfolding after e by (auto simp add: Some moved)
  have bs: "(IGetHttpRequestArgs.body rp = None \<longrightarrow> IGetHttpRequestArgs.body rp' = None)
     \<and> (\<forall>bytes. IGetHttpRequestArgs.body rp = Some (Buffer bytes) \<longrightarrow>
           IGetHttpRequestArgs.body rp' = Some (Buffer bytes))
     \<and> (\<forall>ob. IGetHttpRequestArgs.body rp = Some (BodyObject ob) \<longrightarrow>
           IGetHttpRequestArgs.body rp' =
             Some (BodyObject (if parseURL H (withProtocol (IGetHttpRequestArgs.url rp)) = None
                               then ob else trimUndefinedProperties H ob)))"
    unfolding after e by (simp add: Some trimmedBody_def)
  have rest: "query rp' = query rp
     \<and> rp'\<lparr>IGetHttpRequestArgs.headers := IGetHttpRequestArgs.headers rp,
            IGetHttpRequestArgs.body := IGetHttpRequestArgs.body rp\<rparr> = rp
     \<and> (IGetHttpRequestArgs.headers rp = None \<longrightarrow> IGetHttpRequestArgs.headers rp' = None)"
    unfolding after e by simp
  from hs hc bs rest show ?thesis by blast
qed

theorem parameters_after_call_witness:
  "enableAuth showRequest \<noteq> Some False
   \<and> parseURL exampleHelpers (withProtocol (IGetHttpRequestArgs.url showRequest)) \<noteq> None
   \<and> query (fst (getHttpRequestArgs exampleHelpers emptyClient nonce1 boundary1 showRequest)) = Some [(''id'', Some ''20'')]
   \<and> map_option (\<lambda>h. (h ''accept'', h ''x-user-agent''))
        (IGetHttpRequestArgs.headers (fst (getHttpRequestArgs exampleHelpers emptyClient nonce1 boundary1 showRequest)))
       = Some (Some ''*/*'', Some ''Node.twitter-api-v2'')
   \<and> IGetHttpRequestArgs.body (fst (getHttpRequestArgs exampleHelpers emptyClient nonce1 boundary1 showRequest))
       = Some (BodyObject [(''a'', Some ''1'')])"
proof -
  have a: "enableAuth showRequest \<noteq> Some False"
    "parseURL exampleHelpers (withProtocol (IGetHttpRequestArgs.url showRequest)) \<noteq> None"
    "IGetHttpRequestArgs.headers showRequest = Some [''accept'' \<mapsto> ''*/*'']"
    "IGetHttpRequestArgs.body showRequest = Some (BodyObject [(''a'', Some ''1''), (''b'', None)])"
    "query showRequest = Some [(''id'', Some ''20'')]"
    by (simp_all add: model_defs example_defs showRequest_def)
  note t = parameters_after_call [OF refl, of exampleHelpers emptyClient nonce1 boundary1 showRequest]
  from t a(5) have q: "query (fst (getHttpRequestArgs exampleHelpers emptyClient nonce1 boundary1 showRequest)) = Some [(''id'', Some ''20'')]"
    by simp
  from t a(1,3) have h: "IGetHttpRequestArgs.headers (fst (getHttpRequestArgs exampleHelpers emptyClient nonce1 boundary1 showRequest))
      = Some (if truthyString ([''accept'' \<mapsto> ''*/*''] ''x-user-agent'') = None
              then [''accept'' \<mapsto> ''*/*''](''x-user-agent'' \<mapsto> ''Node.twitter-api-v2'') else [''accept'' \<mapsto> ''*/*''])"
    by blast
  from t a(2,4) have b: "IGetHttpRequestArgs.body (fst (getHttpRequestArgs exampleHelpers emptyClient nonce1 boundary1 showRequest))
      = Some (BodyObject (trimUndefinedProperties exampleHelpers [(''a'', Some ''1''), (''b'', None)]))"
    by simp
  from a q h b show ?thesis
    by (simp add: truthyString_def exampleHelpers_def)
qed

subsection \<open>The rate-limit key\<close>

text \<open>
  C10. \<open>rawUrl\<close> is the origin and the path of the URL as parsed, before the path
  parameters are applied and before the query is formatted: two calls with the same URL
  return the same \<open>rawUrl\<close>, whatever their path parameters, query, body and other
  parameters are.
\<close>

theorem rawUrl_before_substitution:
  assumes r1: "snd (getHttpRequestArgs H this1 nc1 bd1 rp1) = Inr d1"
    and r2: "snd (getHttpRequestArgs H this2 nc2 bd2 rp2) = Inr d2"
    and same: "IGetHttpRequestArgs.url rp1 = IGetHttpRequestArgs.url rp2"
  shows "rawUrl d1 = rawUrl d2
     \<and> (\<exists>u0. parseURL H (withProtocol (IGetHttpRequestArgs.url rp1)) = Some u0
             \<and> rawUrl d1 = origin H u0 @ pathname H u0)"
proof -
  have raw: "\<exists>u0. parseURL H (withProtocol (IGetHttpRequestArgs.url rp)) = Some u0
                 \<and> rawUrl d = origin H u0 @ pathname H u0"
    if res: "snd (getHttpRequestArgs H this nc bd rp) = Inr d" for this nc bd rp d
  proof (cases "parseURL H (withProtocol (IGetHttpRequestArgs.url rp))")
    case None
    then show ?thesis using getHttpRequestArgs_invalid [of H rp this nc bd] res by simp
  next
    case (Some u0)
    obtain u' q' where moved: "urlAndQuery H rp u0 = (u', q')"
      by (cases "urlAndQuery H rp u0")
    show ?thesis
      using getHttpRequestArgs_result [OF Some moved, of this nc bd] res Some
      by (auto simp add: Let_def split: if_splits prod.splits sum.splits)
  qed
  from raw [OF r1] raw [OF r2] same show ?thesis by auto
qed

theorem rawUrl_before_substitution_witness:
  "IGetHttpRequestArgs.url (getRequest ''12'') = IGetHttpRequestArgs.url ((getRequest ''34'')\<lparr>query := Some [(''max_results'', Some ''5'')]\<rparr>)
   \<and> map_sum id (\<lambda>d. (rawUrl d, url_pathname (request_args.url d), url_search (request_args.url d)))
         (snd (getHttpRequestArgs exampleHelpers emptyClient nonce1 boundary1 (getRequest ''12'')))
       = Inr (''https://api.twitter.com/2/users/:id/tweets'', ''/2/users/12/tweets'', [])
   \<and> map_sum id (\<lambda>d. (rawUrl d, url_pathname (request_args.url d), url_search (request_args.url d)))
         (snd (getHttpRequestArgs exampleHelpers oauth1Client nonce2 boundary1
            ((getRequest ''34'')\<lparr>query := Some [(''max_results'', Some ''5'')]\<rparr>)))
       = Inr (''https://api.twitter.com/2/users/:id/tweets'', ''/2/users/34/tweets'', [(''max_results'', ''5'')])"
proof -
  let ?rp2 = "(getRequest ''34'')\<lparr>query := Some [(''max_results'', Some ''5'')]\<rparr>"
  have same: "IGetHttpRequestArgs.url (getRequest ''12'') = IGetHttpRequestArgs.url ?rp2"
    by (simp add: getRequest_def request_def)
  obtain d1 where r1: "snd (getHttpRequestArgs exampleHelpers emptyClient nonce1 boundary1 (getRequest ''12'')) = Inr d1"
    and v1: "url_pathname (request_args.url d1) = ''/2/users/12/tweets''"
            "url_search (request_args.url d1) = []"
            "rawUrl d1 = ''https://api.twitter.com/2/users/:id/tweets''"
    by (simp add: model_defs example_defs getRequest_def)
  obtain d2 where r2: "snd (getHttpRequestArgs exampleHelpers oauth1Client nonce2 boundary1 ?rp2) = Inr d2"
    and v2: "url_pathname (request_args.url d2) = ''/2/users/34/tweets''"
            "url_search (request_args.url d2) = [(''max_results'', ''5'')]"
    by (simp add: model_defs example_defs getRequest_def)
  from rawUrl_before_substitution [OF r1 r2 same] have "rawUrl d1 = rawUrl d2" by blast
  with same r1 r2 v1 v2 show ?thesis by simp
qed

end
